theory Spec2Isabelle
  imports Main "HOL-Library.AList"
begin

section \<open>winstartupreg: Windows startup registry entries\<close>

text \<open>
  A shallow embedding of \<^verbatim>\<open>winstartupreg.go\<close>. The package is a thin layer over three
  collaborators that are not part of the repository: \<^verbatim>\<open>path/filepath\<close>, \<^verbatim>\<open>os\<close> and
  \<^verbatim>\<open>golang.org/x/sys/windows/registry\<close>. They are modelled in the first two subsections as
  an explicit \<open>world\<close>; the five exported functions and \<^verbatim>\<open>getRegistryPath\<close> follow, line
  by line, in the third.
\<close>

subsection \<open>Errors of the collaborators\<close>

text \<open>
  A Go \<^verbatim>\<open>error\<close> value coming from the operating system is observed by the package in two
  ways only: through its text (\<^verbatim>\<open>err.Error()\<close>, also what \<^verbatim>\<open>%w\<close> prints) and through
  \<^verbatim>\<open>os.IsNotExist\<close>. An \<open>env_error\<close> carries exactly these two observations.
\<close>

datatype env_error = EnvError (err_text: string) (err_not_exist: bool)

definition ERROR_FILE_NOT_FOUND :: env_error where
  "ERROR_FILE_NOT_FOUND = EnvError ''The system cannot find the file specified.'' True"

definition ERROR_INVALID_HANDLE :: env_error where
  "ERROR_INVALID_HANDLE = EnvError ''The handle is invalid.'' False"

definition ErrUnexpectedType :: env_error where
  "ErrUnexpectedType = EnvError ''unexpected key value type'' False"

text \<open>\<^verbatim>\<open>os.IsNotExist(err)\<close>: false on \<^verbatim>\<open>nil\<close>, otherwise the classification of the error.\<close>

definition os_IsNotExist :: "env_error option \<Rightarrow> bool" where
  "os_IsNotExist err = (case err of None \<Rightarrow> False | Some e \<Rightarrow> err_not_exist e)"

text \<open>\<^verbatim>\<open>strings.HasPrefix\<close> and \<^verbatim>\<open>strings.Contains\<close> on byte strings.\<close>

fun strings_HasPrefix :: "string \<Rightarrow> string \<Rightarrow> bool" where
  "strings_HasPrefix s [] = True"
| "strings_HasPrefix [] (p # ps) = False"
| "strings_HasPrefix (c # s) (p # ps) = (c = p \<and> strings_HasPrefix s ps)"

fun strings_Contains :: "string \<Rightarrow> string \<Rightarrow> bool" where
  "strings_Contains [] substr = (substr = [])"
| "strings_Contains (c # s) substr =
     (strings_HasPrefix (c # s) substr \<or> strings_Contains s substr)"

subsection \<open>The registry and the file system\<close>

text \<open>
  The two predefined root keys the package uses, and the two access masks it requests.
\<close>

datatype registry_Key = CURRENT_USER | LOCAL_MACHINE

datatype access = ALL_ACCESS | QUERY_VALUE

text \<open>
  A registry value is typed. \<^verbatim>\<open>GetStringValue\<close> accepts the two string types and answers
  \<^verbatim>\<open>ErrUnexpectedType\<close> on every other one.
\<close>

datatype reg_value = REG_SZ string | REG_EXPAND_SZ string | REG_DWORD nat | REG_BINARY "nat list"

text \<open>
  One registry key: its values in enumeration order, and what the operating system answers
  when it refuses an operation on this key (an access check, a failing enumeration, a write
  or a delete it rejects). The refusals are data of the world, so every error branch of the
  package can be reached. Value names are compared as the strings they are.
\<close>

record key_state =
  vals :: "(string \<times> reg_value) list"
  open_fault :: "access \<Rightarrow> env_error option"
  enum_fault :: "env_error option"
  set_fault :: "string \<Rightarrow> string \<Rightarrow> env_error option"
  delete_fault :: "string \<Rightarrow> env_error option"

text \<open>
  The world: \<^verbatim>\<open>filepath.Abs\<close> and the error of \<^verbatim>\<open>os.Stat\<close> as functions of the path (the
  package never changes the file system), and the registry as a partial map from a root
  key and a sub-path to a key. \<open>file_exists\<close> is the file system itself: the paths that
  name a file. The package cannot read it; it only sees what \<^verbatim>\<open>os.Stat\<close> answers, and the
  two differ: \<^verbatim>\<open>os.Stat\<close> can fail on a file that is there (no permission to examine it),
  and on a path that names no file it can fail with an error that \<^verbatim>\<open>os.IsNotExist\<close> does
  not recognise (the path is not a well-formed file name).
\<close>

record world =
  filepath_Abs :: "string \<Rightarrow> env_error + string"
  file_exists :: "string \<Rightarrow> bool"
  os_Stat :: "string \<Rightarrow> env_error option"
  registry :: "registry_Key \<times> string \<Rightarrow> key_state option"

text \<open>An open key handle names the key it was opened on. \<^verbatim>\<open>Close\<close> has no observable effect.\<close>

type_synonym handle = "registry_Key \<times> string"

definition registry_OpenKey :: "world \<Rightarrow> registry_Key \<Rightarrow> string \<Rightarrow> access \<Rightarrow> env_error + handle" where
  "registry_OpenKey w rootKey keyPath acc =
     (case registry w (rootKey, keyPath) of
        None \<Rightarrow> Inl ERROR_FILE_NOT_FOUND
      | Some ks \<Rightarrow>
          (case open_fault ks acc of
             Some err \<Rightarrow> Inl err
           | None \<Rightarrow> Inr (rootKey, keyPath)))"

text \<open>
  \<^verbatim>\<open>k.SetStringValue(name, value)\<close>: unless refused, the value \<open>name\<close> of the key becomes the
  string \<open>value\<close>, created or overwritten in place. A refused write changes nothing.
\<close>

definition SetStringValue :: "handle \<Rightarrow> string \<Rightarrow> string \<Rightarrow> world \<Rightarrow> env_error option \<times> world" where
  "SetStringValue k name val w =
     (case registry w k of
        None \<Rightarrow> (Some ERROR_INVALID_HANDLE, w)
      | Some ks \<Rightarrow>
          (case set_fault ks name val of
             Some err \<Rightarrow> (Some err, w)
           | None \<Rightarrow>
               (None, w\<lparr>registry := (registry w)
                  (k := Some (ks\<lparr>vals := AList.update name (REG_SZ val) (vals ks)\<rparr>))\<rparr>)))"

text \<open>
  \<^verbatim>\<open>k.DeleteValue(name)\<close>: unless refused, deleting a value that is not there fails with
  \<^verbatim>\<open>ERROR_FILE_NOT_FOUND\<close>, and deleting one that is there removes it. A failed delete
  changes nothing.
\<close>

definition DeleteValue :: "handle \<Rightarrow> string \<Rightarrow> world \<Rightarrow> env_error option \<times> world" where
  "DeleteValue k name w =
     (case registry w k of
        None \<Rightarrow> (Some ERROR_INVALID_HANDLE, w)
      | Some ks \<Rightarrow>
          (case delete_fault ks name of
             Some err \<Rightarrow> (Some err, w)
           | None \<Rightarrow>
               (case map_of (vals ks) name of
                  None \<Rightarrow> (Some ERROR_FILE_NOT_FOUND, w)
                | Some v \<Rightarrow>
                    (None, w\<lparr>registry := (registry w)
                       (k := Some (ks\<lparr>vals := AList.delete name (vals ks)\<rparr>))\<rparr>))))"

text \<open>\<^verbatim>\<open>k.ReadValueNames(0)\<close>: all value names of the key, or the enumeration's error.\<close>

definition ReadValueNames :: "handle \<Rightarrow> world \<Rightarrow> env_error + string list" where
  "ReadValueNames k w =
     (case registry w k of
        None \<Rightarrow> Inl ERROR_INVALID_HANDLE
      | Some ks \<Rightarrow>
          (case enum_fault ks of
             Some err \<Rightarrow> Inl err
           | None \<Rightarrow> Inr (map fst (vals ks))))"

text \<open>
  \<^verbatim>\<open>k.GetStringValue(name)\<close>, without the value type the package discards: the string of
  a string-typed value, and an error for a missing value or one of another type.
\<close>

definition GetStringValue :: "handle \<Rightarrow> string \<Rightarrow> world \<Rightarrow> env_error + string" where
  "GetStringValue k name w =
     (case registry w k of
        None \<Rightarrow> Inl ERROR_INVALID_HANDLE
      | Some ks \<Rightarrow>
          (case map_of (vals ks) name of
             None \<Rightarrow> Inl ERROR_FILE_NOT_FOUND
           | Some (REG_SZ s) \<Rightarrow> Inr s
           | Some (REG_EXPAND_SZ s) \<Rightarrow> Inr s
           | Some (REG_DWORD n) \<Rightarrow> Inl ErrUnexpectedType
           | Some (REG_BINARY bs) \<Rightarrow> Inl ErrUnexpectedType))"

text \<open>The value stored under a name of a key of the world, if any.\<close>

definition lookup_value :: "world \<Rightarrow> registry_Key \<Rightarrow> string \<Rightarrow> string \<Rightarrow> reg_value option" where
  "lookup_value w rootKey keyPath name =
     (case registry w (rootKey, keyPath) of
        None \<Rightarrow> None
      | Some ks \<Rightarrow> map_of (vals ks) name)"

subsection \<open>The package\<close>

text \<open>
  \<^verbatim>\<open>type StartupRegistryType int\<close> with four \<^verbatim>\<open>iota\<close> constants. The type is an integer
  type: a caller can pass any integer, which is why \<^verbatim>\<open>getRegistryPath\<close> has a default
  branch.
\<close>

type_synonym StartupRegistryType = int

definition CurrentUserRun :: StartupRegistryType where "CurrentUserRun = 0"
definition CurrentUserRunOnce :: StartupRegistryType where "CurrentUserRunOnce = 1"
definition AllUsersRun :: StartupRegistryType where "AllUsersRun = 2"
definition AllUsersRunOnce :: StartupRegistryType where "AllUsersRunOnce = 3"

record StartupEntry =
  Name :: string
  Command :: string

text \<open>
  The errors the package builds with \<^verbatim>\<open>fmt.Errorf\<close>, one constructor for each format
  string, holding the arguments of the format. \<open>Error\<close> below prints them.
\<close>

datatype error =
    ValidationError
  | PathError env_error
  | NotFoundError_Executable string
  | AccessError env_error
  | WriteError env_error
  | NotFoundError_Entry string string
  | DeleteError env_error
  | AggregateNotFoundError string "error option"
  | ReadError env_error

fun Error :: "error \<Rightarrow> string" where
  "Error ValidationError = ''entry name cannot be empty''"
| "Error (PathError err) = ''invalid command path: '' @ err_text err"
| "Error (NotFoundError_Executable fullPath) = ''executable does not exist: '' @ fullPath"
| "Error (AccessError err) = ''failed to open registry key: '' @ err_text err"
| "Error (WriteError err) = ''failed to set registry value: '' @ err_text err"
| "Error (NotFoundError_Entry entryName keyPath) =
     ''startup entry '' @ [CHR 0x27] @ entryName @ [CHR 0x27] @ '' not found in '' @ keyPath"
| "Error (DeleteError err) = ''failed to delete registry value: '' @ err_text err"
| "Error (AggregateNotFoundError entryName None) =
     ''failed to remove startup entry '' @ [CHR 0x27] @ entryName @ [CHR 0x27]
       @ '' from any location: %!w(<nil>)''"
| "Error (AggregateNotFoundError entryName (Some lastErr)) =
     ''failed to remove startup entry '' @ [CHR 0x27] @ entryName @ [CHR 0x27]
       @ '' from any location: '' @ Error lastErr"
| "Error (ReadError err) = ''failed to read value names: '' @ err_text err"

text \<open>
  The four key paths are raw string literals with backslashes, which a HOL string literal
  cannot hold: \<open>bs\<close> is the one-character string of the backslash (code 0x5C). The two
  spellings \<^verbatim>\<open>Software\<close> and \<^verbatim>\<open>SOFTWARE\<close> are the source's.
\<close>

definition bs :: string where
  "bs = [CHR 0x5C]"

definition CurrentVersion :: string where
  "CurrentVersion = ''Microsoft'' @ bs @ ''Windows'' @ bs @ ''CurrentVersion''"

text \<open>\<^verbatim>\<open>getRegistryPath\<close>: the switch, case by case, with its default.\<close>

definition getRegistryPath :: "StartupRegistryType \<Rightarrow> string \<times> registry_Key" where
  "getRegistryPath registryType =
     (if registryType = CurrentUserRun then
        (''Software'' @ bs @ CurrentVersion @ bs @ ''Run'', CURRENT_USER)
      else if registryType = CurrentUserRunOnce then
        (''Software'' @ bs @ CurrentVersion @ bs @ ''RunOnce'', CURRENT_USER)
      else if registryType = AllUsersRun then
        (''SOFTWARE'' @ bs @ CurrentVersion @ bs @ ''Run'', LOCAL_MACHINE)
      else if registryType = AllUsersRunOnce then
        (''SOFTWARE'' @ bs @ CurrentVersion @ bs @ ''RunOnce'', LOCAL_MACHINE)
      else
        (''Software'' @ bs @ CurrentVersion @ bs @ ''Run'', CURRENT_USER))"

text \<open>\<^verbatim>\<open>AddStartupEntry\<close>: every early return of the source is a branch.\<close>

definition AddStartupEntry :: "StartupEntry \<Rightarrow> StartupRegistryType \<Rightarrow> world \<Rightarrow> error option \<times> world" where
  "AddStartupEntry entry registryType w =
     (if Name entry = [] then (Some ValidationError, w)
      else
        (case filepath_Abs w (Command entry) of
           Inl err \<Rightarrow> (Some (PathError err), w)
         | Inr fullPath \<Rightarrow>
             if os_IsNotExist (os_Stat w fullPath) then
               (Some (NotFoundError_Executable fullPath), w)
             else
               (case getRegistryPath registryType of
                  (keyPath, rootKey) \<Rightarrow>
                    (case registry_OpenKey w rootKey keyPath ALL_ACCESS of
                       Inl err \<Rightarrow> (Some (AccessError err), w)
                     | Inr k \<Rightarrow>
                         (case SetStringValue k (Name entry) fullPath w of
                            (Some err, w') \<Rightarrow> (Some (WriteError err), w')
                          | (None, w') \<Rightarrow> (None, w'))))))"

text \<open>\<^verbatim>\<open>RemoveStartupEntry\<close>: the not-found case is recognised by the text of the error.\<close>

definition RemoveStartupEntry :: "string \<Rightarrow> StartupRegistryType \<Rightarrow> world \<Rightarrow> error option \<times> world" where
  "RemoveStartupEntry entryName registryType w =
     (case getRegistryPath registryType of
        (keyPath, rootKey) \<Rightarrow>
          (case registry_OpenKey w rootKey keyPath ALL_ACCESS of
             Inl err \<Rightarrow> (Some (AccessError err), w)
           | Inr k \<Rightarrow>
               (case DeleteValue k entryName w of
                  (Some err, w') \<Rightarrow>
                    if strings_Contains (err_text err) ''The system cannot find the file specified''
                    then (Some (NotFoundError_Entry entryName keyPath), w')
                    else (Some (DeleteError err), w')
                | (None, w') \<Rightarrow> (None, w'))))"

text \<open>The slice literal \<^verbatim>\<open>registryTypes\<close> of both aggregate functions.\<close>

definition registryTypes :: "StartupRegistryType list" where
  "registryTypes = [CurrentUserRun, CurrentUserRunOnce, AllUsersRun, AllUsersRunOnce]"

text \<open>
  The loop of \<^verbatim>\<open>SafeRemoveStartupEntry\<close> over the remaining registry types, carrying
  \<^verbatim>\<open>lastErr\<close>, \<^verbatim>\<open>removedFromAny\<close> and the world.
\<close>

fun SafeRemove_loop ::
  "string \<Rightarrow> StartupRegistryType list \<Rightarrow> error option \<Rightarrow> bool \<Rightarrow> world
     \<Rightarrow> (error option \<times> bool) \<times> world" where
  "SafeRemove_loop entryName [] lastErr removedFromAny w = ((lastErr, removedFromAny), w)"
| "SafeRemove_loop entryName (registryType # rest) lastErr removedFromAny w =
     (case RemoveStartupEntry entryName registryType w of
        (None, w') \<Rightarrow> SafeRemove_loop entryName rest lastErr True w'
      | (Some err, w') \<Rightarrow> SafeRemove_loop entryName rest (Some err) removedFromAny w')"

definition SafeRemoveStartupEntry :: "string \<Rightarrow> world \<Rightarrow> error option \<times> world" where
  "SafeRemoveStartupEntry entryName w =
     (case SafeRemove_loop entryName registryTypes None False w of
        ((lastErr, removedFromAny), w') \<Rightarrow>
          if \<not> removedFromAny then (Some (AggregateNotFoundError entryName lastErr), w')
          else (None, w'))"

text \<open>
  A Go \<^verbatim>\<open>map\<close> built by assignments is an association list with one pair for each key:
  \<open>AList.update\<close> overwrites in place, so the keys stay distinct and \<^verbatim>\<open>len\<close> is the length.
  The loop of \<^verbatim>\<open>ListStartupEntries\<close> over the remaining value names:
\<close>

fun ListStartupEntries_loop ::
  "handle \<Rightarrow> string list \<Rightarrow> (string \<times> string) list \<Rightarrow> world \<Rightarrow> (string \<times> string) list" where
  "ListStartupEntries_loop k [] entries w = entries"
| "ListStartupEntries_loop k (name # rest) entries w =
     (case GetStringValue k name w of
        Inr val \<Rightarrow> ListStartupEntries_loop k rest (AList.update name val entries) w
      | Inl err \<Rightarrow> ListStartupEntries_loop k rest entries w)"

definition ListStartupEntries :: "StartupRegistryType \<Rightarrow> world \<Rightarrow> error + (string \<times> string) list" where
  "ListStartupEntries registryType w =
     (case getRegistryPath registryType of
        (keyPath, rootKey) \<Rightarrow>
          (case registry_OpenKey w rootKey keyPath QUERY_VALUE of
             Inl err \<Rightarrow> Inl (AccessError err)
           | Inr k \<Rightarrow>
               (case ReadValueNames k w of
                  Inl err \<Rightarrow> Inl (ReadError err)
                | Inr valueNames \<Rightarrow> Inr (ListStartupEntries_loop k valueNames [] w))))"

text \<open>The loop of \<^verbatim>\<open>ListAllStartupEntries\<close>; the function's error result is always \<^verbatim>\<open>nil\<close>.\<close>

fun ListAllStartupEntries_loop ::
  "StartupRegistryType list \<Rightarrow> (StartupRegistryType \<times> (string \<times> string) list) list \<Rightarrow> world
     \<Rightarrow> (StartupRegistryType \<times> (string \<times> string) list) list" where
  "ListAllStartupEntries_loop [] allEntries w = allEntries"
| "ListAllStartupEntries_loop (registryType # rest) allEntries w =
     (case ListStartupEntries registryType w of
        Inr entries \<Rightarrow>
          if length entries > 0
          then ListAllStartupEntries_loop rest (AList.update registryType entries allEntries) w
          else ListAllStartupEntries_loop rest allEntries w
      | Inl err \<Rightarrow> ListAllStartupEntries_loop rest allEntries w)"

definition ListAllStartupEntries ::
  "world \<Rightarrow> (StartupRegistryType \<times> (string \<times> string) list) list \<times> error option" where
  "ListAllStartupEntries w = (ListAllStartupEntries_loop registryTypes [] w, None)"

subsection \<open>Example worlds\<close>

text \<open>
  A key that refuses nothing, and the machine of an ordinary user. The current user's
  \<^verbatim>\<open>Run\<close> key holds a string value and a number, and the number is protected against
  deletion; the user's \<^verbatim>\<open>RunOnce\<close> key is empty; the machine-wide \<^verbatim>\<open>Run\<close> key holds one
  string value; the machine-wide \<^verbatim>\<open>RunOnce\<close> key cannot be opened at all. One executable
  exists; a second path is there but cannot be examined (\<^verbatim>\<open>os.Stat\<close> answers a
  permission error); every other path is missing. For one of the missing paths, whose
  name holds a question mark, \<^verbatim>\<open>os.Stat\<close> answers that the name is not well formed, which
  is not a not-exist error; for all the others it answers that the file is not found.
\<close>

definition plain_key :: "(string \<times> reg_value) list \<Rightarrow> key_state" where
  "plain_key vs =
     \<lparr>vals = vs, open_fault = (\<lambda>acc. None), enum_fault = None,
      set_fault = (\<lambda>name val. None), delete_fault = (\<lambda>name. None)\<rparr>"

definition ERROR_ACCESS_DENIED :: env_error where
  "ERROR_ACCESS_DENIED = EnvError ''Access is denied.'' False"

definition ERROR_INVALID_NAME :: env_error where
  "ERROR_INVALID_NAME =
     EnvError ''The filename, directory name, or volume label syntax is incorrect.'' False"

definition ERROR_NO_SYSTEM_RESOURCES :: env_error where
  "ERROR_NO_SYSTEM_RESOURCES =
     EnvError ''Insufficient system resources exist to complete the requested service.'' False"

definition demo_registry :: "registry_Key \<times> string \<Rightarrow> key_state option" where
  "demo_registry =
     [(CURRENT_USER, ''Software'' @ bs @ CurrentVersion @ bs @ ''Run'') \<mapsto>
        (plain_key [(''Updater'', REG_SZ ''updater.exe''), (''Counter'', REG_DWORD 7)])
          \<lparr>delete_fault := (\<lambda>name. if name = ''Counter'' then Some ERROR_ACCESS_DENIED else None)\<rparr>,
      (CURRENT_USER, ''Software'' @ bs @ CurrentVersion @ bs @ ''RunOnce'') \<mapsto> plain_key [],
      (LOCAL_MACHINE, ''SOFTWARE'' @ bs @ CurrentVersion @ bs @ ''Run'') \<mapsto>
        plain_key [(''Agent'', REG_SZ ''agent.exe'')],
      (LOCAL_MACHINE, ''SOFTWARE'' @ bs @ CurrentVersion @ bs @ ''RunOnce'') \<mapsto>
        (plain_key [(''Setup'', REG_SZ ''setup.exe'')])
          \<lparr>open_fault := (\<lambda>acc. Some ERROR_ACCESS_DENIED)\<rparr>]"

definition demo_world :: world where
  "demo_world =
     \<lparr>filepath_Abs = (\<lambda>p. Inr (''C:'' @ bs @ p)),
      file_exists = (\<lambda>p. p = ''C:'' @ bs @ ''app.exe'' \<or> p = ''C:'' @ bs @ ''locked.exe''),
      os_Stat = (\<lambda>p. if p = ''C:'' @ bs @ ''app.exe'' then None
                      else if p = ''C:'' @ bs @ ''locked.exe'' then Some ERROR_ACCESS_DENIED
                      else if p = ''C:'' @ bs @ ''what?.exe'' then Some ERROR_INVALID_NAME
                      else Some ERROR_FILE_NOT_FOUND),
      registry = demo_registry\<rparr>"

text \<open>
  The same machine at a moment when the user's \<^verbatim>\<open>RunOnce\<close> key can be opened and written
  but the enumeration of its value names fails.
\<close>

definition busy_world :: world where
  "busy_world =
     demo_world\<lparr>registry := demo_registry
       ((CURRENT_USER, ''Software'' @ bs @ CurrentVersion @ bs @ ''RunOnce'') \<mapsto>
          (plain_key [])\<lparr>enum_fault := Some ERROR_NO_SYSTEM_RESOURCES\<rparr>)\<rparr>"

section \<open>Properties\<close>

subsection \<open>Facts for evaluating the example world\<close>

lemmas scope_defs =
  CurrentUserRun_def CurrentUserRunOnce_def AllUsersRun_def AllUsersRunOnce_def

lemmas demo_defs =
  demo_world_def demo_registry_def plain_key_def bs_def CurrentVersion_def
  ERROR_ACCESS_DENIED_def ERROR_FILE_NOT_FOUND_def ERROR_INVALID_NAME_def scope_defs
  getRegistryPath_def registry_OpenKey_def

subsection \<open>The scope resolver\<close>

text \<open>
  Claim C5. \<^verbatim>\<open>getRegistryPath\<close> is a total function of the registry type: each of the four
  constants has its own fixed pair of sub-path and root key, the four pairs differ from one
  another, and every integer that is none of the four constants gets the pair of
  \<open>CurrentUserRun\<close>. Nothing in it can fail: it returns a pair, never an error.
\<close>

theorem getRegistryPath_total:
  "getRegistryPath CurrentUserRun
      = (''Software'' @ bs @ CurrentVersion @ bs @ ''Run'', CURRENT_USER)
   \<and> getRegistryPath CurrentUserRunOnce
      = (''Software'' @ bs @ CurrentVersion @ bs @ ''RunOnce'', CURRENT_USER)
   \<and> getRegistryPath AllUsersRun
      = (''SOFTWARE'' @ bs @ CurrentVersion @ bs @ ''Run'', LOCAL_MACHINE)
   \<and> getRegistryPath AllUsersRunOnce
      = (''SOFTWARE'' @ bs @ CurrentVersion @ bs @ ''RunOnce'', LOCAL_MACHINE)
   \<and> distinct (map getRegistryPath registryTypes)
   \<and> (\<forall>registryType.
         registryType \<notin> {CurrentUserRun, CurrentUserRunOnce, AllUsersRun, AllUsersRunOnce}
         \<longrightarrow> getRegistryPath registryType = getRegistryPath CurrentUserRun)"
  by (simp add: getRegistryPath_def registryTypes_def scope_defs)

theorem getRegistryPath_total_witness:
  "(7::int) \<notin> {CurrentUserRun, CurrentUserRunOnce, AllUsersRun, AllUsersRunOnce}
   \<and> getRegistryPath 7 = (''Software'' @ bs @ CurrentVersion @ bs @ ''Run'', CURRENT_USER)
   \<and> (- 1::int) \<notin> {CurrentUserRun, CurrentUserRunOnce, AllUsersRun, AllUsersRunOnce}
   \<and> getRegistryPath (- 1) = getRegistryPath CurrentUserRun"
proof -
  have out: "(7::int) \<notin> {CurrentUserRun, CurrentUserRunOnce, AllUsersRun, AllUsersRunOnce}"
    "(- 1::int) \<notin> {CurrentUserRun, CurrentUserRunOnce, AllUsersRun, AllUsersRunOnce}"
    by (simp_all add: scope_defs)
  from getRegistryPath_total have
    fallback: "\<And>t. t \<notin> {CurrentUserRun, CurrentUserRunOnce, AllUsersRun, AllUsersRunOnce}
        \<Longrightarrow> getRegistryPath t = getRegistryPath CurrentUserRun"
    and cur: "getRegistryPath CurrentUserRun
        = (''Software'' @ bs @ CurrentVersion @ bs @ ''Run'', CURRENT_USER)"
    by blast+
  show ?thesis
    using out fallback [OF out(1)] fallback [OF out(2)] cur by simp
qed

subsection \<open>Adding an entry: validation\<close>

text \<open>
  Claim C3. For every registry type and every world, an entry whose name is the empty
  string is rejected with the validation error, and the world that comes back is the world
  that went in: the check is the first statement of the function, before the file system
  or the registry is consulted.
\<close>

theorem AddStartupEntry_empty_name:
  "Name entry = [] \<Longrightarrow> AddStartupEntry entry registryType w = (Some ValidationError, w)"
  by (simp add: AddStartupEntry_def)

theorem AddStartupEntry_empty_name_witness:
  "Name \<lparr>Name = [], Command = ''app.exe''\<rparr> = []
   \<and> AddStartupEntry \<lparr>Name = [], Command = ''app.exe''\<rparr> AllUsersRun demo_world
       = (Some ValidationError, demo_world)"
  using AddStartupEntry_empty_name
    [of "\<lparr>Name = [], Command = ''app.exe''\<rparr>" AllUsersRun demo_world]
  by simp

text \<open>
  Claim C4, as amended. For every registry type and every entry with a non-empty name whose
  command normalises to an absolute path that \<^verbatim>\<open>os.Stat\<close> reports as not existing (its
  error is one \<^verbatim>\<open>os.IsNotExist\<close> recognises), the function fails with the
  executable-not-found error carrying that path, and the world is unchanged.

  The claim was stated for every entry whose normalised path does not exist on the file
  system, and so it fails in two ways. The name is checked first: an entry with an empty
  name and a missing executable gets the validation error. And the existence check is
  \<^verbatim>\<open>os.IsNotExist\<close> of the error of \<^verbatim>\<open>os.Stat\<close>, nothing else: a path that names no file
  but on which \<^verbatim>\<open>os.Stat\<close> fails with another error passes the check and is registered.
  The amended claim says nothing about that second case.
\<close>

theorem AddStartupEntry_missing_executable:
  assumes "Name entry \<noteq> []"
    and "filepath_Abs w (Command entry) = Inr fullPath"
    and "os_IsNotExist (os_Stat w fullPath)"
  shows "AddStartupEntry entry registryType w = (Some (NotFoundError_Executable fullPath), w)"
  using assms by (simp add: AddStartupEntry_def)

theorem AddStartupEntry_missing_executable_witness:
  "Name \<lparr>Name = ''TestApp'', Command = ''nope.exe''\<rparr> \<noteq> []
   \<and> filepath_Abs demo_world (Command \<lparr>Name = ''TestApp'', Command = ''nope.exe''\<rparr>)
       = Inr (''C:'' @ bs @ ''nope.exe'')
   \<and> \<not> file_exists demo_world (''C:'' @ bs @ ''nope.exe'')
   \<and> os_Stat demo_world (''C:'' @ bs @ ''nope.exe'') = Some ERROR_FILE_NOT_FOUND
   \<and> os_IsNotExist (os_Stat demo_world (''C:'' @ bs @ ''nope.exe''))
   \<and> AddStartupEntry \<lparr>Name = ''TestApp'', Command = ''nope.exe''\<rparr> AllUsersRun demo_world
       = (Some (NotFoundError_Executable (''C:'' @ bs @ ''nope.exe'')), demo_world)"
proof -
  have n: "Name \<lparr>Name = ''TestApp'', Command = ''nope.exe''\<rparr> \<noteq> []"
    by simp
  have a: "filepath_Abs demo_world (Command \<lparr>Name = ''TestApp'', Command = ''nope.exe''\<rparr>)
      = Inr (''C:'' @ bs @ ''nope.exe'')"
    by (simp add: demo_world_def)
  have m: "\<not> file_exists demo_world (''C:'' @ bs @ ''nope.exe'')"
    by (simp add: demo_defs)
  have e: "os_Stat demo_world (''C:'' @ bs @ ''nope.exe'') = Some ERROR_FILE_NOT_FOUND"
    by (simp add: demo_world_def bs_def)
  have s: "os_IsNotExist (os_Stat demo_world (''C:'' @ bs @ ''nope.exe''))"
    by (simp add: os_IsNotExist_def demo_defs)
  from n a m e s AddStartupEntry_missing_executable [OF n a s, of AllUsersRun]
  show ?thesis by simp
qed

text \<open>
  The claim as it was stated, refuted twice in the example world. The path of \<^verbatim>\<open>nope.exe\<close>
  names no file, and with an empty entry name the result is the validation error. The path
  of \<^verbatim>\<open>what?.exe\<close> names no file either, \<^verbatim>\<open>os.Stat\<close> fails on it with an error that is not
  a not-exist error, and the entry is registered: no error, and the value is written.
\<close>

theorem AddStartupEntry_missing_executable_counterexample:
  "filepath_Abs demo_world (Command \<lparr>Name = [], Command = ''nope.exe''\<rparr>)
       = Inr (''C:'' @ bs @ ''nope.exe'')
   \<and> \<not> file_exists demo_world (''C:'' @ bs @ ''nope.exe'')
   \<and> os_IsNotExist (os_Stat demo_world (''C:'' @ bs @ ''nope.exe''))
   \<and> fst (AddStartupEntry \<lparr>Name = [], Command = ''nope.exe''\<rparr> CurrentUserRun demo_world)
       = Some ValidationError
   \<and> fst (AddStartupEntry \<lparr>Name = [], Command = ''nope.exe''\<rparr> CurrentUserRun demo_world)
       \<noteq> Some (NotFoundError_Executable (''C:'' @ bs @ ''nope.exe''))
   \<and> Name \<lparr>Name = ''TestApp'', Command = ''what?.exe''\<rparr> \<noteq> []
   \<and> filepath_Abs demo_world (Command \<lparr>Name = ''TestApp'', Command = ''what?.exe''\<rparr>)
       = Inr (''C:'' @ bs @ ''what?.exe'')
   \<and> \<not> file_exists demo_world (''C:'' @ bs @ ''what?.exe'')
   \<and> os_Stat demo_world (''C:'' @ bs @ ''what?.exe'') = Some ERROR_INVALID_NAME
   \<and> fst (AddStartupEntry \<lparr>Name = ''TestApp'', Command = ''what?.exe''\<rparr> CurrentUserRun demo_world)
       = None
   \<and> lookup_value
        (snd (AddStartupEntry \<lparr>Name = ''TestApp'', Command = ''what?.exe''\<rparr> CurrentUserRun demo_world))
        CURRENT_USER (''Software'' @ bs @ CurrentVersion @ bs @ ''Run'') ''TestApp''
       = Some (REG_SZ (''C:'' @ bs @ ''what?.exe''))"
proof -
  let ?unnamed = "\<lparr>Name = [], Command = ''nope.exe''\<rparr>"
  let ?odd = "\<lparr>Name = ''TestApp'', Command = ''what?.exe''\<rparr>"
  have a1: "filepath_Abs demo_world (Command ?unnamed) = Inr (''C:'' @ bs @ ''nope.exe'')"
    by (simp add: demo_world_def)
  have m1: "\<not> file_exists demo_world (''C:'' @ bs @ ''nope.exe'')"
    by (simp add: demo_defs)
  have s1: "os_IsNotExist (os_Stat demo_world (''C:'' @ bs @ ''nope.exe''))"
    by (simp add: os_IsNotExist_def demo_defs)
  have r1: "fst (AddStartupEntry ?unnamed CurrentUserRun demo_world) = Some ValidationError"
    by (simp add: AddStartupEntry_def)
  have n2: "Name ?odd \<noteq> []"
    by simp
  have a2: "filepath_Abs demo_world (Command ?odd) = Inr (''C:'' @ bs @ ''what?.exe'')"
    by (simp add: demo_world_def)
  have m2: "\<not> file_exists demo_world (''C:'' @ bs @ ''what?.exe'')"
    by (simp add: demo_defs)
  have s2: "os_Stat demo_world (''C:'' @ bs @ ''what?.exe'') = Some ERROR_INVALID_NAME"
    by (simp add: demo_world_def bs_def)
  have r2: "fst (AddStartupEntry ?odd CurrentUserRun demo_world) = None"
    by (simp add: AddStartupEntry_def os_IsNotExist_def SetStringValue_def demo_defs)
  have v2: "lookup_value (snd (AddStartupEntry ?odd CurrentUserRun demo_world))
      CURRENT_USER (''Software'' @ bs @ CurrentVersion @ bs @ ''Run'') ''TestApp''
      = Some (REG_SZ (''C:'' @ bs @ ''what?.exe''))"
    by (simp add: AddStartupEntry_def os_IsNotExist_def SetStringValue_def lookup_value_def
        demo_defs)
  from a1 m1 s1 r1 n2 a2 m2 s2 r2 v2 show ?thesis
    by simp
qed

text \<open>
  Claim C10. The existence check only looks at \<^verbatim>\<open>os.IsNotExist\<close>. When \<^verbatim>\<open>os.Stat\<close> fails on
  the normalised path with an error that is not a not-exist error, the function never
  answers with the executable-not-found error: its error result and the registry it leaves
  are those of the same call in the world where \<^verbatim>\<open>os.Stat\<close> succeeds on that path.
\<close>

theorem AddStartupEntry_stat_other_error:
  assumes "Name entry \<noteq> []"
    and "filepath_Abs w (Command entry) = Inr fullPath"
    and "os_Stat w fullPath = Some err"
    and "\<not> err_not_exist err"
  shows "(\<forall>p. fst (AddStartupEntry entry registryType w) \<noteq> Some (NotFoundError_Executable p))
    \<and> fst (AddStartupEntry entry registryType w)
        = fst (AddStartupEntry entry registryType (w\<lparr>os_Stat := (os_Stat w)(fullPath := None)\<rparr>))
    \<and> registry (snd (AddStartupEntry entry registryType w))
        = registry (snd (AddStartupEntry entry registryType
            (w\<lparr>os_Stat := (os_Stat w)(fullPath := None)\<rparr>)))"
  using assms
  by (auto simp add: AddStartupEntry_def os_IsNotExist_def registry_OpenKey_def
      SetStringValue_def split: prod.splits sum.splits option.splits)

text \<open>
  In the example world \<^verbatim>\<open>locked.exe\<close> cannot be examined; the entry is registered all the
  same, and the value is in the registry afterwards.
\<close>

theorem AddStartupEntry_stat_other_error_witness:
  "Name \<lparr>Name = ''TestApp'', Command = ''locked.exe''\<rparr> \<noteq> []
   \<and> filepath_Abs demo_world (Command \<lparr>Name = ''TestApp'', Command = ''locked.exe''\<rparr>)
       = Inr (''C:'' @ bs @ ''locked.exe'')
   \<and> os_Stat demo_world (''C:'' @ bs @ ''locked.exe'') = Some ERROR_ACCESS_DENIED
   \<and> \<not> err_not_exist ERROR_ACCESS_DENIED
   \<and> fst (AddStartupEntry \<lparr>Name = ''TestApp'', Command = ''locked.exe''\<rparr> CurrentUserRun demo_world)
       \<noteq> Some (NotFoundError_Executable (''C:'' @ bs @ ''locked.exe''))
   \<and> fst (AddStartupEntry \<lparr>Name = ''TestApp'', Command = ''locked.exe''\<rparr> CurrentUserRun demo_world)
       = None
   \<and> lookup_value
        (snd (AddStartupEntry \<lparr>Name = ''TestApp'', Command = ''locked.exe''\<rparr> CurrentUserRun demo_world))
        CURRENT_USER (''Software'' @ bs @ CurrentVersion @ bs @ ''Run'') ''TestApp''
       = Some (REG_SZ (''C:'' @ bs @ ''locked.exe''))"
proof -
  let ?entry = "\<lparr>Name = ''TestApp'', Command = ''locked.exe''\<rparr>"
  have n: "Name ?entry \<noteq> []"
    by simp
  have a: "filepath_Abs demo_world (Command ?entry) = Inr (''C:'' @ bs @ ''locked.exe'')"
    by (simp add: demo_world_def)
  have s: "os_Stat demo_world (''C:'' @ bs @ ''locked.exe'') = Some ERROR_ACCESS_DENIED"
    by (simp add: demo_defs)
  have d: "\<not> err_not_exist ERROR_ACCESS_DENIED"
    by (simp add: ERROR_ACCESS_DENIED_def)
  have ok: "fst (AddStartupEntry ?entry CurrentUserRun demo_world) = None"
    by (simp add: AddStartupEntry_def os_IsNotExist_def SetStringValue_def demo_defs)
  have written: "lookup_value (snd (AddStartupEntry ?entry CurrentUserRun demo_world))
      CURRENT_USER (''Software'' @ bs @ CurrentVersion @ bs @ ''Run'') ''TestApp''
      = Some (REG_SZ (''C:'' @ bs @ ''locked.exe''))"
    by (simp add: AddStartupEntry_def os_IsNotExist_def SetStringValue_def lookup_value_def
        demo_defs)
  from AddStartupEntry_stat_other_error [OF n a s d, of CurrentUserRun]
  have "fst (AddStartupEntry ?entry CurrentUserRun demo_world)
      \<noteq> Some (NotFoundError_Executable (''C:'' @ bs @ ''locked.exe''))"
    by blast
  with n a s d ok written show ?thesis by blast
qed

subsection \<open>Removing an entry\<close>

text \<open>
  Claim C6. Once the key is open, a failing \<^verbatim>\<open>DeleteValue\<close> is classified by the text of
  its error and by nothing else: when the text contains
  \<^verbatim>\<open>The system cannot find the file specified\<close> the function returns the entry-not-found
  error naming the entry and the key path, and otherwise the delete-failure error wrapping
  the registry's error. The two errors differ, and so do their messages.
\<close>

theorem RemoveStartupEntry_delete_failure:
  assumes "getRegistryPath registryType = (keyPath, rootKey)"
    and "registry_OpenKey w rootKey keyPath ALL_ACCESS = Inr k"
    and "DeleteValue k entryName w = (Some err, w')"
  shows "RemoveStartupEntry entryName registryType w =
      (if strings_Contains (err_text err) ''The system cannot find the file specified''
       then (Some (NotFoundError_Entry entryName keyPath), w')
       else (Some (DeleteError err), w'))
    \<and> NotFoundError_Entry entryName keyPath \<noteq> DeleteError err
    \<and> Error (NotFoundError_Entry entryName keyPath) \<noteq> Error (DeleteError err)"
  using assms by (simp add: RemoveStartupEntry_def)

text \<open>
  In the example world the user's \<^verbatim>\<open>Run\<close> key has no value \<^verbatim>\<open>Nope\<close>, and refuses to delete
  \<^verbatim>\<open>Counter\<close>.
\<close>

theorem RemoveStartupEntry_delete_failure_witness:
  "getRegistryPath CurrentUserRun = (''Software'' @ bs @ CurrentVersion @ bs @ ''Run'', CURRENT_USER)
   \<and> registry_OpenKey demo_world CURRENT_USER (''Software'' @ bs @ CurrentVersion @ bs @ ''Run'')
        ALL_ACCESS = Inr (CURRENT_USER, ''Software'' @ bs @ CurrentVersion @ bs @ ''Run'')
   \<and> DeleteValue (CURRENT_USER, ''Software'' @ bs @ CurrentVersion @ bs @ ''Run'') ''Nope'' demo_world
        = (Some ERROR_FILE_NOT_FOUND, demo_world)
   \<and> RemoveStartupEntry ''Nope'' CurrentUserRun demo_world
        = (Some (NotFoundError_Entry ''Nope'' (''Software'' @ bs @ CurrentVersion @ bs @ ''Run'')),
           demo_world)
   \<and> DeleteValue (CURRENT_USER, ''Software'' @ bs @ CurrentVersion @ bs @ ''Run'') ''Counter'' demo_world
        = (Some ERROR_ACCESS_DENIED, demo_world)
   \<and> RemoveStartupEntry ''Counter'' CurrentUserRun demo_world
        = (Some (DeleteError ERROR_ACCESS_DENIED), demo_world)"
proof -
  let ?path = "''Software'' @ bs @ CurrentVersion @ bs @ ''Run''"
  have p: "getRegistryPath CurrentUserRun = (?path, CURRENT_USER)"
    by (simp add: getRegistryPath_def)
  have k: "registry_OpenKey demo_world CURRENT_USER ?path ALL_ACCESS = Inr (CURRENT_USER, ?path)"
    by (simp add: demo_defs)
  have d1: "DeleteValue (CURRENT_USER, ?path) ''Nope'' demo_world
      = (Some ERROR_FILE_NOT_FOUND, demo_world)"
    by (simp add: DeleteValue_def demo_defs)
  have d2: "DeleteValue (CURRENT_USER, ?path) ''Counter'' demo_world
      = (Some ERROR_ACCESS_DENIED, demo_world)"
    by (simp add: DeleteValue_def demo_defs)
  have t1: "strings_Contains (err_text ERROR_FILE_NOT_FOUND)
      ''The system cannot find the file specified''"
    by (simp add: ERROR_FILE_NOT_FOUND_def)
  have t2: "\<not> strings_Contains (err_text ERROR_ACCESS_DENIED)
      ''The system cannot find the file specified''"
    by (simp add: ERROR_ACCESS_DENIED_def)
  from RemoveStartupEntry_delete_failure [OF p k d1] t1
  have r1: "RemoveStartupEntry ''Nope'' CurrentUserRun demo_world
      = (Some (NotFoundError_Entry ''Nope'' ?path), demo_world)"
    by simp
  from RemoveStartupEntry_delete_failure [OF p k d2] t2
  have r2: "RemoveStartupEntry ''Counter'' CurrentUserRun demo_world
      = (Some (DeleteError ERROR_ACCESS_DENIED), demo_world)"
    by simp
  from p k d1 d2 r1 r2 show ?thesis by blast
qed

text \<open>
  Claim C1. \<^verbatim>\<open>SafeRemoveStartupEntry\<close> runs \<^verbatim>\<open>RemoveStartupEntry\<close> on the four registry types
  in their order, each in the world the previous attempt left, and ends in the world after
  the fourth. It returns no error exactly when one of the four attempts returned none. All
  four attempts fail exactly when it returns the aggregate error for the entry name, and
  the error wrapped in it is the error of the last attempt.
\<close>

theorem SafeRemoveStartupEntry_any_scope:
  assumes "RemoveStartupEntry entryName CurrentUserRun w = (r1, w1)"
    and "RemoveStartupEntry entryName CurrentUserRunOnce w1 = (r2, w2)"
    and "RemoveStartupEntry entryName AllUsersRun w2 = (r3, w3)"
    and "RemoveStartupEntry entryName AllUsersRunOnce w3 = (r4, w4)"
  shows "snd (SafeRemoveStartupEntry entryName w) = w4
    \<and> (fst (SafeRemoveStartupEntry entryName w) = None) =
        (r1 = None \<or> r2 = None \<or> r3 = None \<or> r4 = None)
    \<and> (r1 \<noteq> None \<and> r2 \<noteq> None \<and> r3 \<noteq> None \<and> r4 \<noteq> None) =
        (\<exists>lastErr. r4 = Some lastErr \<and>
           fst (SafeRemoveStartupEntry entryName w)
             = Some (AggregateNotFoundError entryName (Some lastErr)))"
proof -
  have run: "SafeRemoveStartupEntry entryName w =
      (if r1 = None \<or> r2 = None \<or> r3 = None \<or> r4 = None then None
       else Some (AggregateNotFoundError entryName r4), w4)"
    using assms
    by (cases r1; cases r2; cases r3; cases r4)
      (simp_all add: SafeRemoveStartupEntry_def registryTypes_def)
  show ?thesis
    unfolding run by (cases r1; cases r2; cases r3; cases r4) simp_all
qed

text \<open>
  In the example world no key holds \<^verbatim>\<open>Nope\<close>: three attempts report the entry as not found,
  the last one cannot open its key, and that last error is the one wrapped. \<^verbatim>\<open>Agent\<close> is a
  value of the machine-wide \<^verbatim>\<open>Run\<close> key only: the third attempt removes it and the whole
  call succeeds, though the other three attempts fail.
\<close>

theorem SafeRemoveStartupEntry_any_scope_witness:
  "RemoveStartupEntry ''Nope'' CurrentUserRun demo_world
      = (Some (NotFoundError_Entry ''Nope'' (''Software'' @ bs @ CurrentVersion @ bs @ ''Run'')),
         demo_world)
   \<and> RemoveStartupEntry ''Nope'' CurrentUserRunOnce demo_world
      = (Some (NotFoundError_Entry ''Nope'' (''Software'' @ bs @ CurrentVersion @ bs @ ''RunOnce'')),
         demo_world)
   \<and> RemoveStartupEntry ''Nope'' AllUsersRun demo_world
      = (Some (NotFoundError_Entry ''Nope'' (''SOFTWARE'' @ bs @ CurrentVersion @ bs @ ''Run'')),
         demo_world)
   \<and> RemoveStartupEntry ''Nope'' AllUsersRunOnce demo_world
      = (Some (AccessError ERROR_ACCESS_DENIED), demo_world)
   \<and> SafeRemoveStartupEntry ''Nope'' demo_world
      = (Some (AggregateNotFoundError ''Nope'' (Some (AccessError ERROR_ACCESS_DENIED))),
         demo_world)
   \<and> fst (RemoveStartupEntry ''Agent'' CurrentUserRun demo_world) \<noteq> None
   \<and> fst (RemoveStartupEntry ''Agent'' AllUsersRun demo_world) = None
   \<and> fst (SafeRemoveStartupEntry ''Agent'' demo_world) = None"
proof -
  have a1: "RemoveStartupEntry ''Nope'' CurrentUserRun demo_world
      = (Some (NotFoundError_Entry ''Nope'' (''Software'' @ bs @ CurrentVersion @ bs @ ''Run'')),
         demo_world)"
    by (simp add: RemoveStartupEntry_def DeleteValue_def demo_defs)
  have a2: "RemoveStartupEntry ''Nope'' CurrentUserRunOnce demo_world
      = (Some (NotFoundError_Entry ''Nope'' (''Software'' @ bs @ CurrentVersion @ bs @ ''RunOnce'')),
         demo_world)"
    by (simp add: RemoveStartupEntry_def DeleteValue_def demo_defs)
  have a3: "RemoveStartupEntry ''Nope'' AllUsersRun demo_world
      = (Some (NotFoundError_Entry ''Nope'' (''SOFTWARE'' @ bs @ CurrentVersion @ bs @ ''Run'')),
         demo_world)"
    by (simp add: RemoveStartupEntry_def DeleteValue_def demo_defs)
  have a4: "RemoveStartupEntry ''Nope'' AllUsersRunOnce demo_world
      = (Some (AccessError ERROR_ACCESS_DENIED), demo_world)"
    by (simp add: RemoveStartupEntry_def DeleteValue_def demo_defs)
  from SafeRemoveStartupEntry_any_scope [OF a1 a2 a3 a4]
  have nope: "SafeRemoveStartupEntry ''Nope'' demo_world
      = (Some (AggregateNotFoundError ''Nope'' (Some (AccessError ERROR_ACCESS_DENIED))),
         demo_world)"
    by (simp add: prod_eq_iff)
  let ?w3 = "snd (RemoveStartupEntry ''Agent'' AllUsersRun demo_world)"
  have b1: "RemoveStartupEntry ''Agent'' CurrentUserRun demo_world
      = (Some (NotFoundError_Entry ''Agent'' (''Software'' @ bs @ CurrentVersion @ bs @ ''Run'')),
         demo_world)"
    by (simp add: RemoveStartupEntry_def DeleteValue_def demo_defs)
  have b2: "RemoveStartupEntry ''Agent'' CurrentUserRunOnce demo_world
      = (Some (NotFoundError_Entry ''Agent'' (''Software'' @ bs @ CurrentVersion @ bs @ ''RunOnce'')),
         demo_world)"
    by (simp add: RemoveStartupEntry_def DeleteValue_def demo_defs)
  have removed: "fst (RemoveStartupEntry ''Agent'' AllUsersRun demo_world) = None"
    by (simp add: RemoveStartupEntry_def DeleteValue_def demo_defs)
  then have b3: "RemoveStartupEntry ''Agent'' AllUsersRun demo_world = (None, ?w3)"
    by (simp add: prod_eq_iff)
  have b4: "RemoveStartupEntry ''Agent'' AllUsersRunOnce ?w3
      = (Some (AccessError ERROR_ACCESS_DENIED), ?w3)"
    by (simp add: RemoveStartupEntry_def DeleteValue_def demo_defs)
  from SafeRemoveStartupEntry_any_scope [OF b1 b2 b3 b4]
  have agent: "fst (SafeRemoveStartupEntry ''Agent'' demo_world) = None"
    by simp
  from b1 have "fst (RemoveStartupEntry ''Agent'' CurrentUserRun demo_world) \<noteq> None"
    by simp
  with a1 a2 a3 a4 nope removed agent show ?thesis by simp
qed

subsection \<open>Listing\<close>

lemma ListStartupEntries_loop_lookup:
  "map_of (ListStartupEntries_loop k names entries w) name =
     (if name \<in> set names then
        (case GetStringValue k name w of
           Inr val \<Rightarrow> Some val
         | Inl err \<Rightarrow> map_of entries name)
      else map_of entries name)"
  by (induction names arbitrary: entries) (auto simp add: update_conv' split: sum.splits)

lemma ListStartupEntries_loop_distinct:
  "distinct (map fst entries) \<Longrightarrow>
   distinct (map fst (ListStartupEntries_loop k names entries w))"
  by (induction names arbitrary: entries) (auto simp add: distinct_update split: sum.splits)

text \<open>
  Claim C8. When the key has been opened and its value names enumerated, the listing
  succeeds whatever the single reads do. The map it returns has one pair for each name, and
  it maps a name to a string exactly when the name was enumerated and \<^verbatim>\<open>GetStringValue\<close>
  returned that string for it: a value whose read fails is left out, and no other is.
\<close>

theorem ListStartupEntries_skips_unreadable:
  assumes "getRegistryPath registryType = (keyPath, rootKey)"
    and "registry_OpenKey w rootKey keyPath QUERY_VALUE = Inr k"
    and "ReadValueNames k w = Inr valueNames"
  shows "\<exists>entries. ListStartupEntries registryType w = Inr entries
    \<and> distinct (map fst entries)
    \<and> (\<forall>name val. (map_of entries name = Some val) =
          (name \<in> set valueNames \<and> GetStringValue k name w = Inr val))"
proof -
  let ?entries = "ListStartupEntries_loop k valueNames [] w"
  have "ListStartupEntries registryType w = Inr ?entries"
    using assms by (simp add: ListStartupEntries_def)
  moreover have "distinct (map fst ?entries)"
    by (rule ListStartupEntries_loop_distinct) simp
  moreover have "(map_of ?entries name = Some val) =
      (name \<in> set valueNames \<and> GetStringValue k name w = Inr val)" for name val
    by (simp add: ListStartupEntries_loop_lookup split: sum.splits)
  ultimately show ?thesis by blast
qed

text \<open>
  In the example world the user's \<^verbatim>\<open>Run\<close> key holds the string \<^verbatim>\<open>Updater\<close> and the number
  \<^verbatim>\<open>Counter\<close>: the number cannot be read as a string and is the one value left out.
\<close>

theorem ListStartupEntries_skips_unreadable_witness:
  "getRegistryPath CurrentUserRun = (''Software'' @ bs @ CurrentVersion @ bs @ ''Run'', CURRENT_USER)
   \<and> registry_OpenKey demo_world CURRENT_USER (''Software'' @ bs @ CurrentVersion @ bs @ ''Run'')
        QUERY_VALUE = Inr (CURRENT_USER, ''Software'' @ bs @ CurrentVersion @ bs @ ''Run'')
   \<and> ReadValueNames (CURRENT_USER, ''Software'' @ bs @ CurrentVersion @ bs @ ''Run'') demo_world
        = Inr [''Updater'', ''Counter'']
   \<and> GetStringValue (CURRENT_USER, ''Software'' @ bs @ CurrentVersion @ bs @ ''Run'') ''Updater''
        demo_world = Inr ''updater.exe''
   \<and> GetStringValue (CURRENT_USER, ''Software'' @ bs @ CurrentVersion @ bs @ ''Run'') ''Counter''
        demo_world = Inl ErrUnexpectedType
   \<and> (\<exists>entries. ListStartupEntries CurrentUserRun demo_world = Inr entries
         \<and> map_of entries ''Updater'' = Some ''updater.exe''
         \<and> map_of entries ''Counter'' = None)"
proof -
  let ?k = "(CURRENT_USER, ''Software'' @ bs @ CurrentVersion @ bs @ ''Run'')"
  have p: "getRegistryPath CurrentUserRun = (snd ?k, fst ?k)"
    by (simp add: getRegistryPath_def)
  have k: "registry_OpenKey demo_world (fst ?k) (snd ?k) QUERY_VALUE = Inr ?k"
    by (simp add: demo_defs)
  have names: "ReadValueNames ?k demo_world = Inr [''Updater'', ''Counter'']"
    by (simp add: ReadValueNames_def demo_defs)
  have g1: "GetStringValue ?k ''Updater'' demo_world = Inr ''updater.exe''"
    by (simp add: GetStringValue_def demo_defs)
  have g2: "GetStringValue ?k ''Counter'' demo_world = Inl ErrUnexpectedType"
    by (simp add: GetStringValue_def demo_defs)
  from ListStartupEntries_skips_unreadable [OF p k names]
  obtain entries where e: "ListStartupEntries CurrentUserRun demo_world = Inr entries"
    and m: "\<And>name val. (map_of entries name = Some val) =
        (name \<in> set [''Updater'', ''Counter''] \<and> GetStringValue ?k name demo_world = Inr val)"
    by blast
  from m [of "''Updater''" "''updater.exe''"] g1
  have "map_of entries ''Updater'' = Some ''updater.exe''"
    by simp
  moreover have "map_of entries ''Counter'' = None"
  proof (cases "map_of entries ''Counter''")
    case (Some val)
    with m [of "''Counter''" val] g2 show ?thesis by simp
  qed simp
  ultimately show ?thesis
    using p k names g1 g2 e by auto
qed

lemma ListAllStartupEntries_loop_lookup:
  "map_of (ListAllStartupEntries_loop types allEntries w) registryType =
     (if registryType \<in> set types then
        (case ListStartupEntries registryType w of
           Inr entries \<Rightarrow> if entries \<noteq> [] then Some entries else map_of allEntries registryType
         | Inl err \<Rightarrow> map_of allEntries registryType)
      else map_of allEntries registryType)"
  by (induction types arbitrary: allEntries) (auto simp add: update_conv' split: sum.splits)

text \<open>
  Claim C7. \<^verbatim>\<open>ListAllStartupEntries\<close> never returns an error. Its result maps a registry
  type to a listing exactly when the type is one of the four constants, \<^verbatim>\<open>ListStartupEntries\<close>
  on that type returned that listing without an error, and the listing is not empty. A
  failing or empty listing of one type therefore only leaves that type out.
\<close>

theorem ListAllStartupEntries_contents:
  "snd (ListAllStartupEntries w) = None
   \<and> (\<forall>registryType entries.
         (map_of (fst (ListAllStartupEntries w)) registryType = Some entries) =
         (registryType \<in> {CurrentUserRun, CurrentUserRunOnce, AllUsersRun, AllUsersRunOnce}
          \<and> ListStartupEntries registryType w = Inr entries \<and> entries \<noteq> []))"
proof -
  have "(map_of (fst (ListAllStartupEntries w)) registryType = Some entries) =
      (registryType \<in> set registryTypes
       \<and> ListStartupEntries registryType w = Inr entries \<and> entries \<noteq> [])"
    for registryType entries
    by (auto simp add: ListAllStartupEntries_def ListAllStartupEntries_loop_lookup
        split: sum.splits if_splits)
  moreover have "set registryTypes
      = {CurrentUserRun, CurrentUserRunOnce, AllUsersRun, AllUsersRunOnce}"
    by (simp add: registryTypes_def)
  moreover have "snd (ListAllStartupEntries w) = None"
    by (simp add: ListAllStartupEntries_def)
  ultimately show ?thesis by simp
qed

text \<open>
  In the example world the user's \<^verbatim>\<open>Run\<close> key lists one entry and is in the result; the
  user's \<^verbatim>\<open>RunOnce\<close> key lists none, and the machine-wide \<^verbatim>\<open>RunOnce\<close> key cannot be opened:
  both are absent from the result, and no error is returned.
\<close>

theorem ListAllStartupEntries_contents_witness:
  "snd (ListAllStartupEntries demo_world) = None
   \<and> ListStartupEntries CurrentUserRun demo_world = Inr [(''Updater'', ''updater.exe'')]
   \<and> map_of (fst (ListAllStartupEntries demo_world)) CurrentUserRun
        = Some [(''Updater'', ''updater.exe'')]
   \<and> ListStartupEntries CurrentUserRunOnce demo_world = Inr []
   \<and> map_of (fst (ListAllStartupEntries demo_world)) CurrentUserRunOnce = None
   \<and> ListStartupEntries AllUsersRunOnce demo_world = Inl (AccessError ERROR_ACCESS_DENIED)
   \<and> map_of (fst (ListAllStartupEntries demo_world)) AllUsersRunOnce = None"
proof -
  have l1: "ListStartupEntries CurrentUserRun demo_world = Inr [(''Updater'', ''updater.exe'')]"
    by (simp add: ListStartupEntries_def ReadValueNames_def GetStringValue_def demo_defs)
  have l2: "ListStartupEntries CurrentUserRunOnce demo_world = Inr []"
    by (simp add: ListStartupEntries_def ReadValueNames_def GetStringValue_def demo_defs)
  have l4: "ListStartupEntries AllUsersRunOnce demo_world = Inl (AccessError ERROR_ACCESS_DENIED)"
    by (simp add: ListStartupEntries_def ReadValueNames_def GetStringValue_def demo_defs)
  note all = ListAllStartupEntries_contents [of demo_world]
  from all have none: "snd (ListAllStartupEntries demo_world) = None"
    by blast
  from all have m: "\<And>registryType entries.
      (map_of (fst (ListAllStartupEntries demo_world)) registryType = Some entries) =
      (registryType \<in> {CurrentUserRun, CurrentUserRunOnce, AllUsersRun, AllUsersRunOnce}
       \<and> ListStartupEntries registryType demo_world = Inr entries \<and> entries \<noteq> [])"
    by blast
  from m [of CurrentUserRun "[(''Updater'', ''updater.exe'')]"] l1
  have m1: "map_of (fst (ListAllStartupEntries demo_world)) CurrentUserRun
      = Some [(''Updater'', ''updater.exe'')]"
    by simp
  have m2: "map_of (fst (ListAllStartupEntries demo_world)) CurrentUserRunOnce = None"
  proof (cases "map_of (fst (ListAllStartupEntries demo_world)) CurrentUserRunOnce")
    case (Some entries)
    with m [of CurrentUserRunOnce entries] l2 show ?thesis by auto
  qed simp
  have m4: "map_of (fst (ListAllStartupEntries demo_world)) AllUsersRunOnce = None"
  proof (cases "map_of (fst (ListAllStartupEntries demo_world)) AllUsersRunOnce")
    case (Some entries)
    with m [of AllUsersRunOnce entries] l4 show ?thesis by auto
  qed simp
  from none l1 m1 l2 m2 l4 m4 show ?thesis by blast
qed

subsection \<open>What a successful call has done to the registry\<close>

lemma AddStartupEntry_success:
  assumes "AddStartupEntry entry registryType w = (None, w')"
    and "getRegistryPath registryType = (keyPath, rootKey)"
  shows "\<exists>fullPath ks. filepath_Abs w (Command entry) = Inr fullPath
    \<and> registry w (rootKey, keyPath) = Some ks
    \<and> w' = w\<lparr>registry := (registry w)((rootKey, keyPath) :=
          Some (ks\<lparr>vals := AList.update (Name entry) (REG_SZ fullPath) (vals ks)\<rparr>))\<rparr>"
  using assms
  by (auto simp add: AddStartupEntry_def registry_OpenKey_def SetStringValue_def
      split: if_splits sum.splits option.splits prod.splits)

lemma RemoveStartupEntry_success:
  assumes "RemoveStartupEntry entryName registryType w = (None, w')"
    and "getRegistryPath registryType = (keyPath, rootKey)"
  shows "\<exists>ks v. registry w (rootKey, keyPath) = Some ks
    \<and> map_of (vals ks) entryName = Some v
    \<and> w' = w\<lparr>registry := (registry w)((rootKey, keyPath) :=
          Some (ks\<lparr>vals := AList.delete entryName (vals ks)\<rparr>))\<rparr>"
  using assms
  by (auto simp add: RemoveStartupEntry_def registry_OpenKey_def DeleteValue_def
      split: if_splits sum.splits option.splits prod.splits)

lemma RemoveStartupEntry_absent:
  assumes "lookup_value w rootKey keyPath entryName = None"
    and "getRegistryPath registryType = (keyPath, rootKey)"
  shows "fst (RemoveStartupEntry entryName registryType w) \<noteq> None
    \<and> snd (RemoveStartupEntry entryName registryType w) = w"
  using assms
  by (auto simp add: RemoveStartupEntry_def registry_OpenKey_def DeleteValue_def lookup_value_def
      split: if_splits sum.splits option.splits prod.splits)

lemma lookup_value_update:
  "lookup_value (w\<lparr>registry := (registry w)((rootKey, keyPath) := Some (ks\<lparr>vals := vs\<rparr>))\<rparr>)
      root path name =
     (if (root, path) = (rootKey, keyPath) then map_of vs name else lookup_value w root path name)"
  by (simp add: lookup_value_def)

text \<open>
  Claim C2, as amended. Let \<^verbatim>\<open>AddStartupEntry\<close> succeed on an entry (which the code allows
  only for a non-empty name and a command that normalises), and let \<^verbatim>\<open>ListStartupEntries\<close>
  then be called on the same registry type in the world the addition left. If the two
  registry calls the listing makes first succeed, the opening of the key for reading and
  the enumeration of its value names, then the listing returns a map, and the map holds the
  entry's name, mapped to the normalised absolute path of its command.

  The claim was stated without the condition on the two registry calls, and so it fails:
  the listing returns an error and no map when one of them fails, also right after a
  successful addition.
\<close>

theorem AddStartupEntry_then_ListStartupEntries:
  assumes "filepath_Abs w (Command entry) = Inr fullPath"
    and "AddStartupEntry entry registryType w = (None, w')"
    and "getRegistryPath registryType = (keyPath, rootKey)"
    and "registry_OpenKey w' rootKey keyPath QUERY_VALUE = Inr k"
    and "ReadValueNames k w' = Inr valueNames"
  shows "\<exists>entries. ListStartupEntries registryType w' = Inr entries
    \<and> map_of entries (Name entry) = Some fullPath"
proof -
  from AddStartupEntry_success [OF assms(2) assms(3)] assms(1)
  obtain ks where w': "w' = w\<lparr>registry := (registry w)((rootKey, keyPath) :=
        Some (ks\<lparr>vals := AList.update (Name entry) (REG_SZ fullPath) (vals ks)\<rparr>))\<rparr>"
    by auto
  from assms(4) have k: "k = (rootKey, keyPath)"
    by (auto simp add: registry_OpenKey_def split: option.splits)
  let ?entries = "ListStartupEntries_loop k valueNames [] w'"
  have listing: "ListStartupEntries registryType w' = Inr ?entries"
    using assms(3-5) by (simp add: ListStartupEntries_def)
  have enumerated: "Name entry \<in> set valueNames"
    using assms(5) by (auto simp add: ReadValueNames_def k w' dom_update split: option.splits)
  have read: "GetStringValue k (Name entry) w' = Inr fullPath"
    by (simp add: GetStringValue_def k w' update_conv')
  from enumerated read have "map_of ?entries (Name entry) = Some fullPath"
    by (simp add: ListStartupEntries_loop_lookup)
  with listing show ?thesis by blast
qed

text \<open>
  In the example world \<^verbatim>\<open>app.exe\<close> exists; registering it as \<^verbatim>\<open>TestApp\<close> for the current
  user succeeds, the key opens for reading and its three value names are enumerated, and
  the listing shows the new entry beside the entry that was there.
\<close>

theorem AddStartupEntry_then_ListStartupEntries_witness:
  "Name \<lparr>Name = ''TestApp'', Command = ''app.exe''\<rparr> \<noteq> []
   \<and> filepath_Abs demo_world (Command \<lparr>Name = ''TestApp'', Command = ''app.exe''\<rparr>)
        = Inr (''C:'' @ bs @ ''app.exe'')
   \<and> file_exists demo_world (''C:'' @ bs @ ''app.exe'')
   \<and> os_Stat demo_world (''C:'' @ bs @ ''app.exe'') = None
   \<and> fst (AddStartupEntry \<lparr>Name = ''TestApp'', Command = ''app.exe''\<rparr> CurrentUserRun demo_world)
        = None
   \<and> getRegistryPath CurrentUserRun
        = (''Software'' @ bs @ CurrentVersion @ bs @ ''Run'', CURRENT_USER)
   \<and> registry_OpenKey
        (snd (AddStartupEntry \<lparr>Name = ''TestApp'', Command = ''app.exe''\<rparr> CurrentUserRun demo_world))
        CURRENT_USER (''Software'' @ bs @ CurrentVersion @ bs @ ''Run'') QUERY_VALUE
        = Inr (CURRENT_USER, ''Software'' @ bs @ CurrentVersion @ bs @ ''Run'')
   \<and> ReadValueNames (CURRENT_USER, ''Software'' @ bs @ CurrentVersion @ bs @ ''Run'')
        (snd (AddStartupEntry \<lparr>Name = ''TestApp'', Command = ''app.exe''\<rparr> CurrentUserRun demo_world))
        = Inr [''Updater'', ''Counter'', ''TestApp'']
   \<and> (\<exists>entries.
         ListStartupEntries CurrentUserRun
           (snd (AddStartupEntry \<lparr>Name = ''TestApp'', Command = ''app.exe''\<rparr> CurrentUserRun demo_world))
           = Inr entries
         \<and> map_of entries ''TestApp'' = Some (''C:'' @ bs @ ''app.exe''))
   \<and> ListStartupEntries CurrentUserRun
        (snd (AddStartupEntry \<lparr>Name = ''TestApp'', Command = ''app.exe''\<rparr> CurrentUserRun demo_world))
        = Inr [(''Updater'', ''updater.exe''), (''TestApp'', ''C:'' @ bs @ ''app.exe'')]"
proof -
  let ?entry = "\<lparr>Name = ''TestApp'', Command = ''app.exe''\<rparr>"
  let ?run = "''Software'' @ bs @ CurrentVersion @ bs @ ''Run''"
  let ?w' = "snd (AddStartupEntry ?entry CurrentUserRun demo_world)"
  have n: "Name ?entry \<noteq> []"
    by simp
  have a: "filepath_Abs demo_world (Command ?entry) = Inr (''C:'' @ bs @ ''app.exe'')"
    by (simp add: demo_world_def)
  have f: "file_exists demo_world (''C:'' @ bs @ ''app.exe'')"
    by (simp add: demo_defs)
  have s: "os_Stat demo_world (''C:'' @ bs @ ''app.exe'') = None"
    by (simp add: demo_defs)
  have ok: "fst (AddStartupEntry ?entry CurrentUserRun demo_world) = None"
    by (simp add: AddStartupEntry_def os_IsNotExist_def SetStringValue_def demo_defs)
  then have add: "AddStartupEntry ?entry CurrentUserRun demo_world = (None, ?w')"
    by (simp add: prod_eq_iff)
  have p: "getRegistryPath CurrentUserRun = (?run, CURRENT_USER)"
    by (simp add: getRegistryPath_def)
  have k: "registry_OpenKey ?w' CURRENT_USER ?run QUERY_VALUE = Inr (CURRENT_USER, ?run)"
    by (simp add: AddStartupEntry_def os_IsNotExist_def SetStringValue_def demo_defs)
  have names: "ReadValueNames (CURRENT_USER, ?run) ?w' = Inr [''Updater'', ''Counter'', ''TestApp'']"
    by (simp add: AddStartupEntry_def os_IsNotExist_def SetStringValue_def ReadValueNames_def
        demo_defs)
  have l: "ListStartupEntries CurrentUserRun ?w'
      = Inr [(''Updater'', ''updater.exe''), (''TestApp'', ''C:'' @ bs @ ''app.exe'')]"
    by (simp add: AddStartupEntry_def os_IsNotExist_def SetStringValue_def
        ListStartupEntries_def ReadValueNames_def GetStringValue_def demo_defs)
  from AddStartupEntry_then_ListStartupEntries [OF a add p k names]
  have "\<exists>entries. ListStartupEntries CurrentUserRun ?w' = Inr entries
      \<and> map_of entries ''TestApp'' = Some (''C:'' @ bs @ ''app.exe'')"
    by simp
  with n a f s ok p k names l show ?thesis
    by simp
qed

text \<open>
  The claim as it was stated, refuted. In the second example world the same entry is
  registered under the user's \<^verbatim>\<open>RunOnce\<close> key without an error and the value is written,
  but the listing of that key that follows returns the read error, and so no map.
\<close>

theorem AddStartupEntry_then_ListStartupEntries_counterexample:
  "Name \<lparr>Name = ''TestApp'', Command = ''app.exe''\<rparr> \<noteq> []
   \<and> filepath_Abs busy_world (Command \<lparr>Name = ''TestApp'', Command = ''app.exe''\<rparr>)
        = Inr (''C:'' @ bs @ ''app.exe'')
   \<and> file_exists busy_world (''C:'' @ bs @ ''app.exe'')
   \<and> os_Stat busy_world (''C:'' @ bs @ ''app.exe'') = None
   \<and> fst (AddStartupEntry \<lparr>Name = ''TestApp'', Command = ''app.exe''\<rparr> CurrentUserRunOnce busy_world)
        = None
   \<and> lookup_value
        (snd (AddStartupEntry \<lparr>Name = ''TestApp'', Command = ''app.exe''\<rparr> CurrentUserRunOnce busy_world))
        CURRENT_USER (''Software'' @ bs @ CurrentVersion @ bs @ ''RunOnce'') ''TestApp''
        = Some (REG_SZ (''C:'' @ bs @ ''app.exe''))
   \<and> ListStartupEntries CurrentUserRunOnce
        (snd (AddStartupEntry \<lparr>Name = ''TestApp'', Command = ''app.exe''\<rparr> CurrentUserRunOnce busy_world))
        = Inl (ReadError ERROR_NO_SYSTEM_RESOURCES)"
  by (simp add: AddStartupEntry_def os_IsNotExist_def SetStringValue_def lookup_value_def
      ListStartupEntries_def ReadValueNames_def busy_world_def demo_defs)

text \<open>
  Claim C9. Let the registry type resolve to the key \<open>keyPath\<close> under \<open>rootKey\<close>. After a
  successful \<^verbatim>\<open>AddStartupEntry\<close> the value named by the entry in that key is the string of
  the normalised path, and every other value, of that key and of every other key, is what
  it was. After a successful \<^verbatim>\<open>RemoveStartupEntry\<close> the named value, which was there, is
  gone, and every other value of every key is what it was. When the named value is not
  there, \<^verbatim>\<open>RemoveStartupEntry\<close> fails and leaves the world as it was.
\<close>

theorem frame_of_add_and_remove:
  assumes "getRegistryPath registryType = (keyPath, rootKey)"
  shows "(\<forall>w'. AddStartupEntry entry registryType w = (None, w') \<longrightarrow>
           (\<exists>fullPath. filepath_Abs w (Command entry) = Inr fullPath
              \<and> lookup_value w' rootKey keyPath (Name entry) = Some (REG_SZ fullPath))
           \<and> (\<forall>root path name. (root, path, name) \<noteq> (rootKey, keyPath, Name entry) \<longrightarrow>
                 lookup_value w' root path name = lookup_value w root path name))
    \<and> (\<forall>w'. RemoveStartupEntry entryName registryType w = (None, w') \<longrightarrow>
           lookup_value w rootKey keyPath entryName \<noteq> None
           \<and> lookup_value w' rootKey keyPath entryName = None
           \<and> (\<forall>root path name. (root, path, name) \<noteq> (rootKey, keyPath, entryName) \<longrightarrow>
                 lookup_value w' root path name = lookup_value w root path name))
    \<and> (lookup_value w rootKey keyPath entryName = None \<longrightarrow>
           fst (RemoveStartupEntry entryName registryType w) \<noteq> None
           \<and> snd (RemoveStartupEntry entryName registryType w) = w)"
proof (intro conjI allI impI)
  fix w' assume "AddStartupEntry entry registryType w = (None, w')"
  from AddStartupEntry_success [OF this assms]
  obtain fullPath ks where abs: "filepath_Abs w (Command entry) = Inr fullPath"
    and key: "registry w (rootKey, keyPath) = Some ks"
    and w': "w' = w\<lparr>registry := (registry w)((rootKey, keyPath) :=
          Some (ks\<lparr>vals := AList.update (Name entry) (REG_SZ fullPath) (vals ks)\<rparr>))\<rparr>"
    by blast
  show "\<exists>fullPath. filepath_Abs w (Command entry) = Inr fullPath
      \<and> lookup_value w' rootKey keyPath (Name entry) = Some (REG_SZ fullPath)"
    using abs by (simp add: w' lookup_value_update update_conv')
  fix root path name assume "(root, path, name) \<noteq> (rootKey, keyPath, Name entry)"
  then show "lookup_value w' root path name = lookup_value w root path name"
    using key by (auto simp add: w' lookup_value_update update_conv' lookup_value_def)
next
  fix w' assume "RemoveStartupEntry entryName registryType w = (None, w')"
  from RemoveStartupEntry_success [OF this assms]
  obtain ks v where key: "registry w (rootKey, keyPath) = Some ks"
    and present: "map_of (vals ks) entryName = Some v"
    and w': "w' = w\<lparr>registry := (registry w)((rootKey, keyPath) :=
          Some (ks\<lparr>vals := AList.delete entryName (vals ks)\<rparr>))\<rparr>"
    by blast
  show "lookup_value w rootKey keyPath entryName \<noteq> None"
    using key present by (simp add: lookup_value_def)
  show "lookup_value w' rootKey keyPath entryName = None"
    by (simp add: w' lookup_value_update delete_conv')
  fix root path name assume "(root, path, name) \<noteq> (rootKey, keyPath, entryName)"
  then show "lookup_value w' root path name = lookup_value w root path name"
    using key by (auto simp add: w' lookup_value_update delete_conv' lookup_value_def)
next
  assume "lookup_value w rootKey keyPath entryName = None"
  from RemoveStartupEntry_absent [OF this assms]
  show "fst (RemoveStartupEntry entryName registryType w) \<noteq> None"
    and "snd (RemoveStartupEntry entryName registryType w) = w"
    by simp_all
qed

text \<open>
  In the example world: registering \<^verbatim>\<open>TestApp\<close> for the current user writes that value and
  leaves \<^verbatim>\<open>Updater\<close> in the same key and \<^verbatim>\<open>Agent\<close> in the machine-wide key alone; removing
  \<^verbatim>\<open>Updater\<close> leaves \<^verbatim>\<open>Counter\<close> alone; removing \<^verbatim>\<open>Nope\<close>, which is not there, fails and
  changes nothing.
\<close>

theorem frame_of_add_and_remove_witness:
  "getRegistryPath CurrentUserRun = (''Software'' @ bs @ CurrentVersion @ bs @ ''Run'', CURRENT_USER)
   \<and> fst (AddStartupEntry \<lparr>Name = ''TestApp'', Command = ''app.exe''\<rparr> CurrentUserRun demo_world)
        = None
   \<and> lookup_value
        (snd (AddStartupEntry \<lparr>Name = ''TestApp'', Command = ''app.exe''\<rparr> CurrentUserRun demo_world))
        CURRENT_USER (''Software'' @ bs @ CurrentVersion @ bs @ ''Run'') ''TestApp''
        = Some (REG_SZ (''C:'' @ bs @ ''app.exe''))
   \<and> lookup_value
        (snd (AddStartupEntry \<lparr>Name = ''TestApp'', Command = ''app.exe''\<rparr> CurrentUserRun demo_world))
        CURRENT_USER (''Software'' @ bs @ CurrentVersion @ bs @ ''Run'') ''Updater''
        = Some (REG_SZ ''updater.exe'')
   \<and> lookup_value
        (snd (AddStartupEntry \<lparr>Name = ''TestApp'', Command = ''app.exe''\<rparr> CurrentUserRun demo_world))
        LOCAL_MACHINE (''SOFTWARE'' @ bs @ CurrentVersion @ bs @ ''Run'') ''Agent''
        = Some (REG_SZ ''agent.exe'')
   \<and> fst (RemoveStartupEntry ''Updater'' CurrentUserRun demo_world) = None
   \<and> lookup_value (snd (RemoveStartupEntry ''Updater'' CurrentUserRun demo_world))
        CURRENT_USER (''Software'' @ bs @ CurrentVersion @ bs @ ''Run'') ''Updater'' = None
   \<and> lookup_value (snd (RemoveStartupEntry ''Updater'' CurrentUserRun demo_world))
        CURRENT_USER (''Software'' @ bs @ CurrentVersion @ bs @ ''Run'') ''Counter''
        = Some (REG_DWORD 7)
   \<and> lookup_value demo_world
        CURRENT_USER (''Software'' @ bs @ CurrentVersion @ bs @ ''Run'') ''Nope'' = None
   \<and> fst (RemoveStartupEntry ''Nope'' CurrentUserRun demo_world) \<noteq> None
   \<and> snd (RemoveStartupEntry ''Nope'' CurrentUserRun demo_world) = demo_world"
proof -
  let ?entry = "\<lparr>Name = ''TestApp'', Command = ''app.exe''\<rparr>"
  let ?run = "''Software'' @ bs @ CurrentVersion @ bs @ ''Run''"
  let ?added = "snd (AddStartupEntry ?entry CurrentUserRun demo_world)"
  let ?removed = "snd (RemoveStartupEntry ''Updater'' CurrentUserRun demo_world)"
  have p: "getRegistryPath CurrentUserRun = (?run, CURRENT_USER)"
    by (simp add: getRegistryPath_def)
  have a: "filepath_Abs demo_world (Command ?entry) = Inr (''C:'' @ bs @ ''app.exe'')"
    by (simp add: demo_world_def)
  have ok: "fst (AddStartupEntry ?entry CurrentUserRun demo_world) = None"
    by (simp add: AddStartupEntry_def os_IsNotExist_def SetStringValue_def demo_defs)
  then have add: "AddStartupEntry ?entry CurrentUserRun demo_world = (None, ?added)"
    by (simp add: prod_eq_iff)
  have gone: "fst (RemoveStartupEntry ''Updater'' CurrentUserRun demo_world) = None"
    by (simp add: RemoveStartupEntry_def DeleteValue_def demo_defs)
  then have del: "RemoveStartupEntry ''Updater'' CurrentUserRun demo_world = (None, ?removed)"
    by (simp add: prod_eq_iff)
  have before:
    "lookup_value demo_world CURRENT_USER ?run ''Updater'' = Some (REG_SZ ''updater.exe'')"
    "lookup_value demo_world CURRENT_USER ?run ''Counter'' = Some (REG_DWORD 7)"
    "lookup_value demo_world CURRENT_USER ?run ''Nope'' = None"
    "lookup_value demo_world LOCAL_MACHINE (''SOFTWARE'' @ bs @ CurrentVersion @ bs @ ''Run'')
       ''Agent'' = Some (REG_SZ ''agent.exe'')"
    by (simp_all add: lookup_value_def demo_defs)
  note frame = frame_of_add_and_remove [OF p, of ?entry demo_world]
  note added = frame [of "''Updater''", THEN conjunct1, rule_format, OF add]
  note removed = frame [of "''Updater''", THEN conjunct2, THEN conjunct1, rule_format, OF del]
  note absent = frame [of "''Nope''", THEN conjunct2, THEN conjunct2, rule_format, OF before(3)]
  from added [THEN conjunct1] a
  have c1: "lookup_value ?added CURRENT_USER ?run ''TestApp''
      = Some (REG_SZ (''C:'' @ bs @ ''app.exe''))"
    by auto
  from added [THEN conjunct2, rule_format, of CURRENT_USER ?run "''Updater''"] before(1)
  have c2: "lookup_value ?added CURRENT_USER ?run ''Updater'' = Some (REG_SZ ''updater.exe'')"
    by simp
  from added [THEN conjunct2, rule_format, of LOCAL_MACHINE
      "''SOFTWARE'' @ bs @ CurrentVersion @ bs @ ''Run''" "''Agent''"] before(4)
  have c3: "lookup_value ?added LOCAL_MACHINE (''SOFTWARE'' @ bs @ CurrentVersion @ bs @ ''Run'')
      ''Agent'' = Some (REG_SZ ''agent.exe'')"
    by simp
  from removed
  have c4: "lookup_value ?removed CURRENT_USER ?run ''Updater'' = None"
    by simp
  from removed [THEN conjunct2, THEN conjunct2, rule_format, of CURRENT_USER ?run "''Counter''"]
    before(2)
  have c5: "lookup_value ?removed CURRENT_USER ?run ''Counter'' = Some (REG_DWORD 7)"
    by simp
  from p ok c1 c2 c3 gone c4 c5 before(3) absent show ?thesis
    by simp
qed

end
